theory Spec2Isabelle
  imports Main "HOL-Library.Word" "HOL-Library.List_Lexorder" "HOL-Library.Char_ord"
begin

section \<open>Spark SQL values and column expressions\<close>

text \<open>
  The job of \<^verbatim>\<open>src/etl_job.py\<close> computes on Spark data frames. A cell of a data frame
  is a value of the column's type or SQL \<^verbatim>\<open>NULL\<close>. Spark's \<^verbatim>\<open>IntegerType\<close> is
  a signed 32-bit integer whose arithmetic wraps around (the job leaves
  \<^verbatim>\<open>spark.sql.ansi.enabled\<close> at the Spark 3 default, off). Dates, timestamps, doubles
  and maps are kept opaque (\<open>VOther\<close>): the functions that make them are parameters of the
  model.
\<close>

type_synonym int32 = "32 word"

datatype val = VNull | VStr string | VInt int32 | VBool bool | VOther string

text \<open>
  Column operators, one row at a time. A \<^verbatim>\<open>NULL\<close> operand makes an arithmetic or
  comparison result \<^verbatim>\<open>NULL\<close>; \<^verbatim>\<open>&\<close> and \<^verbatim>\<open>|\<close> follow SQL's three-valued logic.
  The job applies the numeric operators to integer columns only; on any other operand the
  model answers \<^verbatim>\<open>NULL\<close>.
\<close>

fun plus_col :: "val \<Rightarrow> val \<Rightarrow> val" where
  "plus_col (VInt a) (VInt b) = VInt (a + b)"
| "plus_col _ _ = VNull"

fun eq_col :: "val \<Rightarrow> val \<Rightarrow> val" where
  "eq_col (VInt a) (VInt b) = VBool (a = b)"
| "eq_col _ _ = VNull"

fun le_col :: "val \<Rightarrow> val \<Rightarrow> val" where
  "le_col (VInt a) (VInt b) = VBool (a \<le>s b)"
| "le_col _ _ = VNull"

fun lt_col :: "val \<Rightarrow> val \<Rightarrow> val" where
  "lt_col (VInt a) (VInt b) = VBool (a <s b)"
| "lt_col _ _ = VNull"

fun ge_col :: "val \<Rightarrow> val \<Rightarrow> val" where
  "ge_col (VInt a) (VInt b) = VBool (b \<le>s a)"
| "ge_col _ _ = VNull"

fun and_col :: "val \<Rightarrow> val \<Rightarrow> val" where
  "and_col (VBool False) _ = VBool False"
| "and_col _ (VBool False) = VBool False"
| "and_col (VBool True) (VBool True) = VBool True"
| "and_col _ _ = VNull"

fun or_col :: "val \<Rightarrow> val \<Rightarrow> val" where
  "or_col (VBool True) _ = VBool True"
| "or_col _ (VBool True) = VBool True"
| "or_col (VBool False) (VBool False) = VBool False"
| "or_col _ _ = VNull"

text \<open>
  \<^verbatim>\<open>when(c1, v1).when(c2, v2) ... .otherwise(d)\<close>: the value of the first branch whose
  condition is true; a condition that is false or \<^verbatim>\<open>NULL\<close> is passed over.
\<close>

fun when_otherwise :: "(val \<times> val) list \<Rightarrow> val \<Rightarrow> val" where
  "when_otherwise [] d = d"
| "when_otherwise ((c, v) # bs) d = (if c = VBool True then v else when_otherwise bs d)"

section \<open>The derived columns of \<^verbatim>\<open>transform_data\<close>\<close>

text \<open>Step 6 of \<^verbatim>\<open>transform_data\<close>, from the column \<^verbatim>\<open>day_of_week\<close>.\<close>

definition is_weekend :: "val \<Rightarrow> val" where
  "is_weekend day_of_week =
     when_otherwise
       [(or_col (eq_col day_of_week (VInt 1)) (eq_col day_of_week (VInt 7)), VBool True)]
       (VBool False)"

text \<open>Step 7, from the column \<^verbatim>\<open>hour\<close>.\<close>

definition time_of_day :: "val \<Rightarrow> val" where
  "time_of_day hour =
     when_otherwise
       [(and_col (ge_col hour (VInt 0)) (lt_col hour (VInt 6)), VStr ''Late Night''),
        (and_col (ge_col hour (VInt 6)) (lt_col hour (VInt 12)), VStr ''Morning''),
        (and_col (ge_col hour (VInt 12)) (lt_col hour (VInt 17)), VStr ''Afternoon''),
        (and_col (ge_col hour (VInt 17)) (lt_col hour (VInt 21)), VStr ''Evening'')]
       (VStr ''Night'')"

text \<open>Step 8: each total is the sum of four count columns, added left to right.\<close>

definition total_injuries :: "val \<Rightarrow> val \<Rightarrow> val \<Rightarrow> val \<Rightarrow> val" where
  "total_injuries persons pedestrians cyclist motorist =
     plus_col (plus_col (plus_col persons pedestrians) cyclist) motorist"

definition total_fatalities :: "val \<Rightarrow> val \<Rightarrow> val \<Rightarrow> val \<Rightarrow> val" where
  "total_fatalities persons pedestrians cyclist motorist =
     plus_col (plus_col (plus_col persons pedestrians) cyclist) motorist"

text \<open>Step 9, from the columns \<^verbatim>\<open>total_injuries\<close> and \<^verbatim>\<open>total_fatalities\<close>.\<close>

definition severity_category :: "val \<Rightarrow> val \<Rightarrow> val" where
  "severity_category ti tf =
     when_otherwise
       [(eq_col (plus_col ti tf) (VInt 0), VStr ''Minor''),
        (le_col (plus_col ti tf) (VInt 2), VStr ''Moderate'')]
       (VStr ''Severe'')"

section \<open>Casting a column to \<^verbatim>\<open>int\<close>\<close>

text \<open>
  \<^verbatim>\<open>col(c).cast("int")\<close> with ANSI mode off: a string is trimmed of white space and read
  as an optional sign, decimal digits and an optional fraction (a dot and more digits, which
  are dropped); a string of any other shape, or a number outside the 32-bit range, becomes
  \<^verbatim>\<open>NULL\<close> and raises nothing. A null stays null, an integer stays as it is and a
  boolean becomes 1 or 0. Values of the opaque types are not cast by the job on its own
  input (the API delivers text); the model answers \<^verbatim>\<open>NULL\<close> for them.
\<close>

definition is_whitespace :: "char \<Rightarrow> bool" where
  "is_whitespace c = (let n = (of_char c :: nat) in (9 \<le> n \<and> n \<le> 13) \<or> (28 \<le> n \<and> n \<le> 32))"

definition is_digit :: "char \<Rightarrow> bool" where
  "is_digit c = (let n = (of_char c :: nat) in 48 \<le> n \<and> n \<le> 57)"

definition digits_value :: "string \<Rightarrow> nat" where
  "digits_value ds = foldl (\<lambda>n c. 10 * n + (of_char c - 48)) 0 ds"

definition trim :: "string \<Rightarrow> string" where
  "trim s = rev (dropWhile is_whitespace (rev (dropWhile is_whitespace s)))"

definition string_to_int :: "string \<Rightarrow> int32 option" where
  "string_to_int s =
     (case trim s of
        [] \<Rightarrow> None
      | c # cs \<Rightarrow>
          (let negative = (c = CHR ''-'');
               signed = (negative \<or> c = CHR ''+'');
               body = (if signed then cs else c # cs);
               integral = takeWhile (\<lambda>d. d \<noteq> CHR ''.'') body;
               fraction = drop 1 (dropWhile (\<lambda>d. d \<noteq> CHR ''.'') body);
               n = digits_value integral
           in if signed \<and> cs = [] then None
              else if \<not> list_all is_digit integral \<or> \<not> list_all is_digit fraction then None
              else if negative then (if n \<le> 2 ^ 31 then Some (word_of_int (- int n)) else None)
              else (if n < 2 ^ 31 then Some (word_of_nat n) else None)))"

fun cast_int :: "val \<Rightarrow> val" where
  "cast_int VNull = VNull"
| "cast_int (VInt i) = VInt i"
| "cast_int (VBool b) = VInt (if b then 1 else 0)"
| "cast_int (VStr s) = (case string_to_int s of None \<Rightarrow> VNull | Some i \<Rightarrow> VInt i)"
| "cast_int (VOther x) = VNull"

section \<open>Data frames\<close>

text \<open>
  A data frame is its ordered column names and its rows; a row gives each column its cell.
  Outside the frame's columns a row of the model is \<^verbatim>\<open>NULL\<close> or left over from a
  projection, and no operation of the job reads it: naming a column that the frame does not
  have raises Spark's \<^verbatim>\<open>AnalysisException\<close>, which every operation below checks first.
\<close>

type_synonym row = "string \<Rightarrow> val"

record dataframe =
  columns :: "string list"
  rows :: "row list"

text \<open>
  The exceptions of a run, all of them Python \<^verbatim>\<open>Exception\<close>s (so the handler of
  \<^verbatim>\<open>main\<close> catches each of them). \<open>LibraryError\<close> is an exception that a client
  library raises on a failed call, named by its class.
\<close>

datatype exn =
    AnalysisException string
  | AttributeError
  | KeyError string
  | TypeError
  | ValueError
  | JSONDecodeError
  | LibraryError string

text \<open>The first of the referenced columns that the frame lacks, if any.\<close>

definition unresolved :: "string list \<Rightarrow> dataframe \<Rightarrow> string option" where
  "unresolved refs df =
     (case filter (\<lambda>c. c \<notin> set (columns df)) refs of [] \<Rightarrow> None | c # _ \<Rightarrow> Some c)"

text \<open>\<^verbatim>\<open>df.dropna(subset=cs)\<close>: the rows with no null in the columns \<open>cs\<close>.\<close>

definition dropna :: "string list \<Rightarrow> dataframe \<Rightarrow> exn + dataframe" where
  "dropna cs df =
     (case unresolved cs df of
        Some c \<Rightarrow> Inl (AnalysisException c)
      | None \<Rightarrow> Inr (df\<lparr>rows := filter (\<lambda>r. list_all (\<lambda>c. r c \<noteq> VNull) cs) (rows df)\<rparr>))"

text \<open>
  \<^verbatim>\<open>df.withColumn(name, e)\<close>, where the expression \<open>e\<close> reads the columns \<open>refs\<close>:
  an existing column is replaced in place, a new one is added last.
\<close>

definition withColumn :: "string \<Rightarrow> string list \<Rightarrow> (row \<Rightarrow> val) \<Rightarrow> dataframe \<Rightarrow> exn + dataframe" where
  "withColumn name refs e df =
     (case unresolved refs df of
        Some c \<Rightarrow> Inl (AnalysisException c)
      | None \<Rightarrow>
          Inr \<lparr>columns = (if name \<in> set (columns df) then columns df else columns df @ [name]),
               rows = map (\<lambda>r. r(name := e r)) (rows df)\<rparr>)"

text \<open>\<^verbatim>\<open>df.select(cs)\<close>.\<close>

definition select :: "string list \<Rightarrow> dataframe \<Rightarrow> exn + dataframe" where
  "select cs df =
     (case unresolved cs df of
        Some c \<Rightarrow> Inl (AnalysisException c)
      | None \<Rightarrow>
          Inr \<lparr>columns = cs, rows = map (\<lambda>r c. if c \<in> set cs then r c else VNull) (rows df)\<rparr>)"

text \<open>
  \<^verbatim>\<open>a.unionByName(b)\<close> as the job calls it, with \<^verbatim>\<open>allowMissingColumns\<close> left at its
  default \<^verbatim>\<open>False\<close>: the columns of \<open>b\<close> are matched to those of \<open>a\<close> by name, and
  Spark raises \<^verbatim>\<open>AnalysisException\<close> when a column of one frame is missing from the other
  or a name is repeated. The result has the columns of \<open>a\<close> and the rows of both.
\<close>

definition unionByName :: "dataframe \<Rightarrow> dataframe \<Rightarrow> exn + dataframe" where
  "unionByName a b =
     (if distinct (columns a) \<and> distinct (columns b) \<and> set (columns a) = set (columns b)
      then Inr \<lparr>columns = columns a, rows = rows a @ rows b\<rparr>
      else Inl (AnalysisException ''unionByName''))"

text \<open>Running the steps of a transformation in order, stopping at the first that raises.\<close>

fun run_steps :: "(dataframe \<Rightarrow> exn + dataframe) list \<Rightarrow> dataframe \<Rightarrow> exn + dataframe" where
  "run_steps [] df = Inr df"
| "run_steps (f # fs) df = (case f df of Inl e \<Rightarrow> Inl e | Inr df' \<Rightarrow> run_steps fs df')"

section \<open>\<^verbatim>\<open>transform_data\<close>\<close>

text \<open>
  The Spark SQL functions on dates, timestamps, doubles and maps that the job calls are
  parameters of the model: \<^verbatim>\<open>to_date\<close> and \<^verbatim>\<open>to_timestamp\<close> (value and pattern),
  \<^verbatim>\<open>concat_ws\<close> (separator and values), \<^verbatim>\<open>year\<close>, \<^verbatim>\<open>month\<close>, \<^verbatim>\<open>dayofweek\<close>
  and \<^verbatim>\<open>hour\<close> (an \<^verbatim>\<open>IntegerType\<close> result, or null), \<^verbatim>\<open>cast("double")\<close> and
  \<^verbatim>\<open>to_json\<close>. Every theorem holds whatever these functions compute.
\<close>

record spark_functions =
  spark_to_date :: "val \<Rightarrow> string \<Rightarrow> val"
  spark_to_timestamp :: "val \<Rightarrow> string \<Rightarrow> val"
  spark_concat_ws :: "string \<Rightarrow> val list \<Rightarrow> val"
  spark_year :: "val \<Rightarrow> int32 option"
  spark_month :: "val \<Rightarrow> int32 option"
  spark_dayofweek :: "val \<Rightarrow> int32 option"
  spark_hour :: "val \<Rightarrow> int32 option"
  spark_cast_double :: "val \<Rightarrow> val"
  spark_to_json :: "val \<Rightarrow> val"

definition int_col :: "int32 option \<Rightarrow> val" where
  "int_col x = (case x of None \<Rightarrow> VNull | Some i \<Rightarrow> VInt i)"

definition int_cols :: "string list" where
  "int_cols =
     [''number_of_persons_injured'', ''number_of_persons_killed'',
      ''number_of_pedestrians_injured'', ''number_of_pedestrians_killed'',
      ''number_of_cyclist_injured'', ''number_of_cyclist_killed'',
      ''number_of_motorist_injured'', ''number_of_motorist_killed'']"

definition desired_columns :: "string list" where
  "desired_columns =
     [''collision_id'', ''crash_timestamp'', ''crash_date'', ''crash_time'', ''year'', ''month'',
      ''day_of_week'', ''is_weekend'', ''time_of_day'', ''borough'', ''zip_code'', ''latitude'',
      ''longitude'', ''location'', ''on_street_name'', ''cross_street_name'', ''off_street_name'',
      ''total_injuries'', ''total_fatalities'', ''severity_category'',
      ''number_of_persons_injured'', ''number_of_persons_killed'',
      ''number_of_pedestrians_injured'', ''number_of_pedestrians_killed'',
      ''number_of_cyclist_injured'', ''number_of_cyclist_killed'',
      ''number_of_motorist_injured'', ''number_of_motorist_killed'',
      ''contributing_factor_vehicle_1'', ''contributing_factor_vehicle_2'',
      ''contributing_factor_vehicle_3'', ''contributing_factor_vehicle_4'',
      ''contributing_factor_vehicle_5'', ''vehicle_type_code1'', ''vehicle_type_code2'',
      ''vehicle_type_code_3'', ''vehicle_type_code_4'', ''vehicle_type_code_5'']"

text \<open>\<^verbatim>\<open>if c in data.columns: data = data.withColumn(c, col(c).cast("int"))\<close>.\<close>

definition cast_int_if_present :: "string \<Rightarrow> dataframe \<Rightarrow> exn + dataframe" where
  "cast_int_if_present c data =
     (if c \<in> set (columns data) then withColumn c [c] (\<lambda>r. cast_int (r c)) data else Inr data)"

text \<open>\<^verbatim>\<open>if "location" in data.columns: ... to_json(col("location"))\<close>.\<close>

definition location_to_json :: "spark_functions \<Rightarrow> dataframe \<Rightarrow> exn + dataframe" where
  "location_to_json lib data =
     (if ''location'' \<in> set (columns data)
      then withColumn ''location'' [''location''] (\<lambda>r. spark_to_json lib (r ''location'')) data
      else Inr data)"

text \<open>The projection on the desired columns that the frame has, in the desired order.\<close>

definition select_existing :: "dataframe \<Rightarrow> exn + dataframe" where
  "select_existing data = select (filter (\<lambda>c. c \<in> set (columns data)) desired_columns) data"

text \<open>
  Steps 1 to 12 of \<^verbatim>\<open>transform_data\<close>: the frame that step 13 writes. Each line is one
  assignment to \<^verbatim>\<open>data\<close> of the source, in its order.
\<close>

definition transform_frame :: "spark_functions \<Rightarrow> dataframe \<Rightarrow> exn + dataframe" where
  "transform_frame lib =
     run_steps
       ([dropna [''collision_id''],
         withColumn ''collision_id'' [''collision_id''] (\<lambda>r. cast_int (r ''collision_id''))]
        @ map cast_int_if_present int_cols
        @ [withColumn ''crash_date'' [''crash_date'']
             (\<lambda>r. spark_to_date lib (r ''crash_date'') ''yyyy-MM-dd''),
           withColumn ''crash_timestamp'' [''crash_date'', ''crash_time'']
             (\<lambda>r. spark_to_timestamp lib
                     (spark_concat_ws lib '' '' [r ''crash_date'', r ''crash_time''])
                     ''yyyy-MM-dd HH:mm''),
           withColumn ''year'' [''crash_timestamp'']
             (\<lambda>r. int_col (spark_year lib (r ''crash_timestamp''))),
           withColumn ''month'' [''crash_timestamp'']
             (\<lambda>r. int_col (spark_month lib (r ''crash_timestamp''))),
           withColumn ''day_of_week'' [''crash_timestamp'']
             (\<lambda>r. int_col (spark_dayofweek lib (r ''crash_timestamp''))),
           withColumn ''is_weekend'' [''day_of_week''] (\<lambda>r. is_weekend (r ''day_of_week'')),
           withColumn ''hour'' [''crash_timestamp'']
             (\<lambda>r. int_col (spark_hour lib (r ''crash_timestamp''))),
           withColumn ''time_of_day'' [''hour''] (\<lambda>r. time_of_day (r ''hour'')),
           withColumn ''total_injuries''
             [''number_of_persons_injured'', ''number_of_pedestrians_injured'',
              ''number_of_cyclist_injured'', ''number_of_motorist_injured'']
             (\<lambda>r. total_injuries (r ''number_of_persons_injured'')
                     (r ''number_of_pedestrians_injured'') (r ''number_of_cyclist_injured'')
                     (r ''number_of_motorist_injured'')),
           withColumn ''total_fatalities''
             [''number_of_persons_killed'', ''number_of_pedestrians_killed'',
              ''number_of_cyclist_killed'', ''number_of_motorist_killed'']
             (\<lambda>r. total_fatalities (r ''number_of_persons_killed'')
                     (r ''number_of_pedestrians_killed'') (r ''number_of_cyclist_killed'')
                     (r ''number_of_motorist_killed'')),
           withColumn ''severity_category'' [''total_injuries'', ''total_fatalities'']
             (\<lambda>r. severity_category (r ''total_injuries'') (r ''total_fatalities'')),
           withColumn ''latitude'' [''latitude''] (\<lambda>r. spark_cast_double lib (r ''latitude'')),
           withColumn ''longitude'' [''longitude''] (\<lambda>r. spark_cast_double lib (r ''longitude'')),
           location_to_json lib,
           select_existing])"

section \<open>Observations on the transformation\<close>






text \<open>
  Sample inputs. \<open>null_lib\<close> gives the parameter functions the values Spark computes on
  null cells (\<^verbatim>\<open>concat_ws\<close> of nulls is the empty string, everything else is null); the
  sample rows leave every cell but \<^verbatim>\<open>collision_id\<close> null.
\<close>

definition null_lib :: spark_functions where
  "null_lib =
     \<lparr>spark_to_date = (\<lambda>_ _. VNull), spark_to_timestamp = (\<lambda>_ _. VNull),
      spark_concat_ws = (\<lambda>_ _. VStr ''''), spark_year = (\<lambda>_. None),
      spark_month = (\<lambda>_. None), spark_dayofweek = (\<lambda>_. None), spark_hour = (\<lambda>_. None),
      spark_cast_double = (\<lambda>_. VNull), spark_to_json = (\<lambda>_. VNull)\<rparr>"



section \<open>Configuration\<close>

text \<open>
  The constants that \<^verbatim>\<open>etl_job.py\<close> imports from \<^verbatim>\<open>config.py\<close>. The functions of
  the job take them as a record, and \<open>config_py\<close> holds the values of the file.
\<close>

record config =
  CONFIG_BUCKET :: string
  CONFIG_FILE_KEY :: string
  LOGS_BUCKET :: string
  LOGS_KEY_PREFIX :: string
  DATA_BUCKET :: string
  PROCESSED_DATA_PREFIX :: string
  BASE_URL :: string
  LIMIT :: nat
  REDSHIFT_IAM_ROLE :: string
  REDSHIFT_TABLE :: string

definition config_py :: config where
  "config_py =
     \<lparr>CONFIG_BUCKET = ''nyc-collisions-ecc'',
      CONFIG_FILE_KEY = ''config/last_collision_date.json'',
      LOGS_BUCKET = ''nyc-collisions-ecc'',
      LOGS_KEY_PREFIX = ''logs/'',
      DATA_BUCKET = ''nyc-collisions-ecc'',
      PROCESSED_DATA_PREFIX = ''processed_data'',
      BASE_URL = ''https://data.cityofnewyork.us/resource/h9gi-nx95.json'',
      LIMIT = 50000,
      REDSHIFT_IAM_ROLE =
        ''arn:aws:iam::340752835797:role/service-role/AmazonRedshift-CommandsAccessRole-20241204T130545'',
      REDSHIFT_TABLE = ''public.collisions''\<rparr>"

section \<open>The outside world\<close>

text \<open>
  The job talks to an HTTP API, to an object store, to Spark's writer and to a warehouse.
  Each call takes the world as it is and returns a value or raises, with the world as the
  call leaves it. The calls are the fields of \<open>env\<close>; nothing is assumed about them, so a
  theorem about the job holds for every behaviour of the services, failures included.
\<close>

record request =
  where_clause :: string
  limit_param :: nat
  offset_param :: nat

type_synonym json_record = "(string \<times> val) list"

text \<open>A response: its status code, and what \<^verbatim>\<open>response.json()\<close> returns or raises.\<close>

record response =
  status_code :: nat
  json :: "exn + json_record list"

record 'w env =
  requests_get :: "string \<Rightarrow> request \<Rightarrow> 'w \<Rightarrow> (exn + response) \<times> 'w"
  s3_get_object :: "string \<Rightarrow> string \<Rightarrow> 'w \<Rightarrow> (exn + string) \<times> 'w"
  s3_put_object :: "string \<Rightarrow> string \<Rightarrow> string \<Rightarrow> 'w \<Rightarrow> (exn + unit) \<times> 'w"
  s3_upload_file :: "string \<Rightarrow> string \<Rightarrow> string \<Rightarrow> 'w \<Rightarrow> (exn + unit) \<times> 'w"
  parquet_save :: "string \<Rightarrow> dataframe \<Rightarrow> 'w \<Rightarrow> (exn + unit) \<times> 'w"
  redshift_copy :: "string \<Rightarrow> 'w \<Rightarrow> (exn + unit) \<times> 'w"
  spark_stop :: "'w \<Rightarrow> (exn + unit) \<times> 'w"
  log_file :: string

text \<open>
  The job's state is the world and the trace of the calls made so far, each with the
  exception it raised, if any. \<open>LogException\<close> is the \<^verbatim>\<open>logger.exception\<close> of the handler
  in \<^verbatim>\<open>main\<close>; the other logger calls write lines to a local file, raise nothing and
  are left out.
\<close>

datatype call =
    HttpGet string request
  | S3GetObject string string
  | S3PutObject string string string
  | S3UploadFile string string string
  | ParquetSave string
  | RedshiftCopy string
  | SparkStop
  | LogException exn

record 'w st =
  world :: 'w
  trace :: "(call \<times> exn option) list"

definition raised :: "exn + 'a \<Rightarrow> exn option" where
  "raised r = (case r of Inl e \<Rightarrow> Some e | Inr _ \<Rightarrow> None)"

definition perform :: "call \<Rightarrow> ('w \<Rightarrow> (exn + 'a) \<times> 'w) \<Rightarrow> 'w st \<Rightarrow> (exn + 'a) \<times> 'w st" where
  "perform c f s =
     (case f (world s) of (r, w) \<Rightarrow> (r, \<lparr>world = w, trace = trace s @ [(c, raised r)]\<rparr>))"

section \<open>JSON documents\<close>

text \<open>
  \<^verbatim>\<open>json.dumps\<close> and \<^verbatim>\<open>json.loads\<close> on the documents of the watermark store: one JSON
  object whose members are strings. \<^verbatim>\<open>json.dumps\<close> (with \<^verbatim>\<open>ensure_ascii\<close>, the
  default) writes a string between double quotes, escaping the quote, the backslash and
  every character outside the printable ASCII range; \<^verbatim>\<open>json.loads\<close> undoes the escapes,
  accepts white space between tokens, and raises \<^verbatim>\<open>JSONDecodeError\<close> on a malformed
  document. A character is a code point below 256. A document with a member that is not a
  string, or whose top level is not an object, is outside the model (it is refused).
\<close>

definition hex_digit :: "nat \<Rightarrow> char" where
  "hex_digit n = ''0123456789abcdef'' ! n"

definition hex_val :: "char \<Rightarrow> nat option" where
  "hex_val c =
     (let n = (of_char c :: nat)
      in if 48 \<le> n \<and> n \<le> 57 then Some (n - 48)
         else if 97 \<le> n \<and> n \<le> 102 then Some (n - 87)
         else if 65 \<le> n \<and> n \<le> 70 then Some (n - 55)
         else None)"

definition json_escape :: "char \<Rightarrow> string" where
  "json_escape c =
     (let n = (of_char c :: nat)
      in if c = CHR 0x22 then [CHR 0x5C, CHR 0x22]
         else if c = CHR 0x5C then [CHR 0x5C, CHR 0x5C]
         else if n = 10 then [CHR 0x5C, CHR ''n'']
         else if n = 13 then [CHR 0x5C, CHR ''r'']
         else if n = 9 then [CHR 0x5C, CHR ''t'']
         else if n = 8 then [CHR 0x5C, CHR ''b'']
         else if n = 12 then [CHR 0x5C, CHR ''f'']
         else if n < 32 \<or> 126 < n
           then [CHR 0x5C, CHR ''u'', CHR ''0'', CHR ''0'', hex_digit (n div 16), hex_digit (n mod 16)]
         else [c])"

definition json_string :: "string \<Rightarrow> string" where
  "json_string s = [CHR 0x22] @ concat (map json_escape s) @ [CHR 0x22]"

fun json_members :: "(string \<times> string) list \<Rightarrow> string" where
  "json_members [] = []"
| "json_members [(k, v)] = json_string k @ '': '' @ json_string v"
| "json_members ((k, v) # m # ms) = json_string k @ '': '' @ json_string v @ '', '' @ json_members (m # ms)"

definition json_dumps :: "(string \<times> string) list \<Rightarrow> string" where
  "json_dumps d = ''{'' @ json_members d @ ''}''"

datatype token = TLBrace | TRBrace | TColon | TComma | TString string

datatype lexmode = Outside | InString string | Escape string | Hex string "nat list"

definition unescape :: "char \<Rightarrow> char option" where
  "unescape c =
     (if c = CHR 0x22 \<or> c = CHR 0x5C \<or> c = CHR ''/'' then Some c
      else if c = CHR ''b'' then Some (CHR 0x08)
      else if c = CHR ''f'' then Some (CHR 0x0C)
      else if c = CHR ''n'' then Some (CHR 0x0A)
      else if c = CHR ''r'' then Some (CHR 0x0D)
      else if c = CHR ''t'' then Some (CHR 0x09)
      else None)"

definition json_ws :: "char \<Rightarrow> bool" where
  "json_ws c = (c = CHR '' '' \<or> c = CHR 0x09 \<or> c = CHR 0x0A \<or> c = CHR 0x0D)"

definition emit :: "token \<Rightarrow> token list option \<Rightarrow> token list option" where
  "emit t r = map_option ((#) t) r"

text \<open>
  The scanner, one character at a time. In \<open>InString acc\<close> the characters read so far are
  \<open>acc\<close>, last first; \<open>Hex acc ds\<close> has read the digits \<open>ds\<close> of a \<^verbatim>\<open>\uXXXX\<close> escape.
\<close>

fun lex :: "lexmode \<Rightarrow> string \<Rightarrow> token list option" where
  "lex Outside [] = Some []"
| "lex _ [] = None"
| "lex Outside (c # cs) =
     (if json_ws c then lex Outside cs
      else if c = CHR ''{'' then emit TLBrace (lex Outside cs)
      else if c = CHR ''}'' then emit TRBrace (lex Outside cs)
      else if c = CHR '':'' then emit TColon (lex Outside cs)
      else if c = CHR '','' then emit TComma (lex Outside cs)
      else if c = CHR 0x22 then lex (InString []) cs
      else None)"
| "lex (InString acc) (c # cs) =
     (if c = CHR 0x22 then emit (TString (rev acc)) (lex Outside cs)
      else if c = CHR 0x5C then lex (Escape acc) cs
      else if (of_char c :: nat) < 32 then None
      else lex (InString (c # acc)) cs)"
| "lex (Escape acc) (c # cs) =
     (if c = CHR ''u'' then lex (Hex acc []) cs
      else (case unescape c of None \<Rightarrow> None | Some d \<Rightarrow> lex (InString (d # acc)) cs))"
| "lex (Hex acc ds) (c # cs) =
     (case hex_val c of
        None \<Rightarrow> None
      | Some h \<Rightarrow>
          (if length ds < 3 then lex (Hex acc (ds @ [h])) cs
           else (let n = foldl (\<lambda>a d. 16 * a + d) 0 (ds @ [h])
                 in if n < 256 then lex (InString (char_of n # acc)) cs else None)))"

fun members :: "token list \<Rightarrow> (string \<times> string) list option" where
  "members [TString k, TColon, TString v, TRBrace] = Some [(k, v)]"
| "members (TString k # TColon # TString v # TComma # rest) =
     map_option ((#) (k, v)) (members rest)"
| "members _ = None"

fun parse_object :: "token list \<Rightarrow> (string \<times> string) list option" where
  "parse_object [TLBrace, TRBrace] = Some []"
| "parse_object (TLBrace # rest) = members rest"
| "parse_object _ = None"

definition json_loads :: "string \<Rightarrow> exn + (string \<times> string) list" where
  "json_loads s =
     (case lex Outside s of
        None \<Rightarrow> Inl JSONDecodeError
      | Some toks \<Rightarrow>
          (case parse_object toks of None \<Rightarrow> Inl JSONDecodeError | Some ms \<Rightarrow> Inr ms))"

text \<open>\<^verbatim>\<open>d[k]\<close> on the dictionary that \<^verbatim>\<open>json.loads\<close> builds: of a repeated name the last member counts.\<close>

definition dict_get :: "(string \<times> string) list \<Rightarrow> string \<Rightarrow> exn + string" where
  "dict_get d k = (case map_of (rev d) k of None \<Rightarrow> Inl (KeyError k) | Some v \<Rightarrow> Inr v)"

section \<open>The watermark store\<close>

definition read_last_collision_date :: "'w env \<Rightarrow> config \<Rightarrow> 'w st \<Rightarrow> (exn + string) \<times> 'w st" where
  "read_last_collision_date env cfg s =
     (case perform (S3GetObject (CONFIG_BUCKET cfg) (CONFIG_FILE_KEY cfg))
             (s3_get_object env (CONFIG_BUCKET cfg) (CONFIG_FILE_KEY cfg)) s of
        (Inl e, s1) \<Rightarrow> (Inl e, s1)
      | (Inr file_content, s1) \<Rightarrow>
          (case json_loads file_content of
             Inl e \<Rightarrow> (Inl e, s1)
           | Inr config_data \<Rightarrow> (dict_get config_data ''last_collision_date'', s1)))"

definition update_last_collision_date :: "'w env \<Rightarrow> config \<Rightarrow> string \<Rightarrow> 'w st \<Rightarrow> (exn + unit) \<times> 'w st" where
  "update_last_collision_date env cfg new_date s =
     (let content = json_dumps [(''last_collision_date'', new_date)]
      in perform (S3PutObject (CONFIG_BUCKET cfg) (CONFIG_FILE_KEY cfg) content)
           (s3_put_object env (CONFIG_BUCKET cfg) (CONFIG_FILE_KEY cfg) content) s)"

section \<open>The fetcher\<close>

text \<open>
  \<^verbatim>\<open>spark.createDataFrame(data)\<close> on a list of dictionaries: the schema is inferred from
  all of them (the sorted field names of the first, then the unseen names of each later one),
  a field that a record lacks is null in its row, and the inference raises when two records
  disagree on the type of a field (\<^verbatim>\<open>TypeError\<close>) or a field has no value but null
  (\<^verbatim>\<open>ValueError\<close>). A record lists each field once.
\<close>

definition infer_columns :: "json_record list \<Rightarrow> string list" where
  "infer_columns data =
     foldl (\<lambda>cols r. cols @ filter (\<lambda>k. k \<notin> set cols) (sort (remdups (map fst r)))) [] data"

definition row_of :: "json_record \<Rightarrow> row" where
  "row_of r = (\<lambda>c. case map_of r c of None \<Rightarrow> VNull | Some v \<Rightarrow> v)"

fun cell_kind :: "val \<Rightarrow> nat option" where
  "cell_kind VNull = None"
| "cell_kind (VStr _) = Some 0"
| "cell_kind (VInt _) = Some 1"
| "cell_kind (VBool _) = Some 2"
| "cell_kind (VOther _) = Some 3"

definition column_kinds :: "row list \<Rightarrow> string \<Rightarrow> nat list" where
  "column_kinds rws c = remdups (concat (map (\<lambda>r. case cell_kind (r c) of None \<Rightarrow> [] | Some k \<Rightarrow> [k]) rws))"

definition createDataFrame :: "json_record list \<Rightarrow> exn + dataframe" where
  "createDataFrame data =
     (let cols = infer_columns data; rws = map row_of data
      in if list_ex (\<lambda>c. 1 < length (column_kinds rws c)) cols then Inl TypeError
         else if list_ex (\<lambda>c. column_kinds rws c = []) cols then Inl ValueError
         else Inr \<lparr>columns = cols, rows = rws\<rparr>)"

definition query_params :: "string \<Rightarrow> nat \<Rightarrow> nat \<Rightarrow> request" where
  "query_params last_collision_date lim offset =
     \<lparr>where_clause = ''crash_date > '' @ [CHR 0x27] @ last_collision_date @ [CHR 0x27],
      limit_param = lim,
      offset_param = offset\<rparr>"

text \<open>
  The \<^verbatim>\<open>while True\<close> loop of \<^verbatim>\<open>download_new_data\<close>, with its variables \<^verbatim>\<open>offset\<close>
  and \<^verbatim>\<open>all_data_df\<close>. The loop need not end (an API that never returns an empty page
  keeps it running): the value \<open>None\<close> stands for a run that does not return.
\<close>

partial_function (option) download_loop ::
  "'w env \<Rightarrow> config \<Rightarrow> string \<Rightarrow> nat \<Rightarrow> dataframe option \<Rightarrow> 'w st
     \<Rightarrow> ((exn + dataframe option) \<times> 'w st) option" where
  "download_loop env cfg last_collision_date offset all_data_df s =
     (case perform (HttpGet (BASE_URL cfg) (query_params last_collision_date (LIMIT cfg) offset))
             (requests_get env (BASE_URL cfg) (query_params last_collision_date (LIMIT cfg) offset)) s of
        (Inl e, s1) \<Rightarrow> Some (Inl e, s1)
      | (Inr response, s1) \<Rightarrow>
          if status_code response \<noteq> 200 then Some (Inr all_data_df, s1)
          else (case json response of
                  Inl e \<Rightarrow> Some (Inl e, s1)
                | Inr data \<Rightarrow>
                    if data = [] then Some (Inr all_data_df, s1)
                    else (case createDataFrame data of
                            Inl e \<Rightarrow> Some (Inl e, s1)
                          | Inr batch_df \<Rightarrow>
                              (case all_data_df of
                                 None \<Rightarrow>
                                   download_loop env cfg last_collision_date (offset + LIMIT cfg)
                                     (Some batch_df) s1
                               | Some df \<Rightarrow>
                                   (case unionByName df batch_df of
                                      Inl e \<Rightarrow> Some (Inl e, s1)
                                    | Inr u \<Rightarrow>
                                        download_loop env cfg last_collision_date
                                          (offset + LIMIT cfg) (Some u) s1)))))"

definition download_new_data ::
  "'w env \<Rightarrow> config \<Rightarrow> string \<Rightarrow> 'w st \<Rightarrow> ((exn + dataframe option) \<times> 'w st) option" where
  "download_new_data env cfg last_collision_date s =
     download_loop env cfg last_collision_date 0 None s"

section \<open>Writing, loading and logging\<close>

text \<open>Step 13 of \<^verbatim>\<open>transform_data\<close> writes the frame of steps 1 to 12 and returns the path.\<close>

definition processed_data_path :: "config \<Rightarrow> string" where
  "processed_data_path cfg = ''s3://'' @ DATA_BUCKET cfg @ ''/'' @ PROCESSED_DATA_PREFIX cfg @ ''/''"

definition transform_data ::
  "'w env \<Rightarrow> config \<Rightarrow> spark_functions \<Rightarrow> dataframe \<Rightarrow> 'w st \<Rightarrow> (exn + string) \<times> 'w st" where
  "transform_data env cfg lib data s =
     (case transform_frame lib data of
        Inl e \<Rightarrow> (Inl e, s)
      | Inr df \<Rightarrow>
          (case perform (ParquetSave (processed_data_path cfg))
                  (parquet_save env (processed_data_path cfg) df) s of
             (Inl e, s1) \<Rightarrow> (Inl e, s1)
           | (Inr _, s1) \<Rightarrow> (Inr (processed_data_path cfg), s1)))"

text \<open>
  \<^verbatim>\<open>load_data_into_redshift\<close>: connecting, running the one \<^verbatim>\<open>COPY\<close> command with
  autocommit and closing are one call of the warehouse.
\<close>

definition copy_command :: "config \<Rightarrow> string \<Rightarrow> string" where
  "copy_command cfg path =
     [CHR 0x0A] @ ''    COPY '' @ REDSHIFT_TABLE cfg @ [CHR 0x0A]
     @ ''    FROM '' @ [CHR 0x27] @ path @ [CHR 0x27, CHR 0x0A]
     @ ''    IAM_ROLE '' @ [CHR 0x27] @ REDSHIFT_IAM_ROLE cfg @ [CHR 0x27, CHR 0x0A]
     @ ''    FORMAT AS PARQUET;'' @ [CHR 0x0A] @ ''    ''"

definition load_data_into_redshift :: "'w env \<Rightarrow> config \<Rightarrow> string \<Rightarrow> 'w st \<Rightarrow> (exn + unit) \<times> 'w st" where
  "load_data_into_redshift env cfg path s =
     perform (RedshiftCopy (copy_command cfg path)) (redshift_copy env (copy_command cfg path)) s"

definition upload_logs_to_s3 :: "'w env \<Rightarrow> config \<Rightarrow> 'w st \<Rightarrow> (exn + unit) \<times> 'w st" where
  "upload_logs_to_s3 env cfg s =
     perform (S3UploadFile (log_file env) (LOGS_BUCKET cfg) (LOGS_KEY_PREFIX cfg @ log_file env))
       (s3_upload_file env (log_file env) (LOGS_BUCKET cfg) (LOGS_KEY_PREFIX cfg @ log_file env)) s"

section \<open>\<^verbatim>\<open>main\<close>\<close>

text \<open>
  The new watermark of \<^verbatim>\<open>main\<close>: the greatest \<^verbatim>\<open>crash_date\<close> of the batch (Spark's
  \<^verbatim>\<open>max\<close> skips nulls and compares strings byte by byte), cut at the first "T". The
  aggregate raises when the batch has no such column; \<^verbatim>\<open>.split\<close> raises when the
  greatest value is not a string, so when every cell is null or the column is not text.
  \<^verbatim>\<open>count()\<close> and the aggregate are computed by Spark on the fetched frame and touch
  nothing outside it.
\<close>

definition string_cells :: "val list \<Rightarrow> string list" where
  "string_cells vs = concat (map (\<lambda>v. case v of VStr x \<Rightarrow> [x] | _ \<Rightarrow> []) vs)"

definition new_last_collision_date :: "dataframe \<Rightarrow> exn + string" where
  "new_last_collision_date all_data_df =
     (let cells = map (\<lambda>r. r ''crash_date'') (rows all_data_df)
      in if ''crash_date'' \<notin> set (columns all_data_df) then Inl (AnalysisException ''crash_date'')
         else if list_ex (\<lambda>v. v \<noteq> VNull \<and> cell_kind v \<noteq> Some 0) cells then Inl AttributeError
         else (case string_cells cells of
                 [] \<Rightarrow> Inl AttributeError
               | x # xs \<Rightarrow> Inr (takeWhile (\<lambda>c. c \<noteq> CHR ''T'') (foldl max x xs))))"

text \<open>The body of the \<^verbatim>\<open>try\<close> block of \<^verbatim>\<open>main\<close>.\<close>

definition pipeline ::
  "'w env \<Rightarrow> config \<Rightarrow> spark_functions \<Rightarrow> 'w st \<Rightarrow> ((exn + unit) \<times> 'w st) option" where
  "pipeline env cfg lib s =
     (case read_last_collision_date env cfg s of
        (Inl e, s1) \<Rightarrow> Some (Inl e, s1)
      | (Inr last_collision_date, s1) \<Rightarrow>
          (case download_new_data env cfg last_collision_date s1 of
             None \<Rightarrow> None
           | Some (Inl e, s2) \<Rightarrow> Some (Inl e, s2)
           | Some (Inr None, s2) \<Rightarrow> Some (Inr (), s2)
           | Some (Inr (Some all_data_df), s2) \<Rightarrow>
               (case new_last_collision_date all_data_df of
                  Inl e \<Rightarrow> Some (Inl e, s2)
                | Inr new_date \<Rightarrow>
                    (case transform_data env cfg lib all_data_df s2 of
                       (Inl e, s3) \<Rightarrow> Some (Inl e, s3)
                     | (Inr path, s3) \<Rightarrow>
                         (case load_data_into_redshift env cfg path s3 of
                            (Inl e, s4) \<Rightarrow> Some (Inl e, s4)
                          | (Inr _, s4) \<Rightarrow> Some (update_last_collision_date env cfg new_date s4))))))"

text \<open>
  \<^verbatim>\<open>main\<close>: the \<^verbatim>\<open>try\<close> block, the handler \<^verbatim>\<open>except Exception\<close> that logs, and the
  \<^verbatim>\<open>finally\<close> block, whose two calls are not guarded: an exception of
  \<^verbatim>\<open>upload_logs_to_s3\<close> skips \<^verbatim>\<open>spark.stop()\<close> and leaves \<^verbatim>\<open>main\<close>.
\<close>

definition log_exception :: "exn \<Rightarrow> 'w st \<Rightarrow> 'w st" where
  "log_exception e s = s\<lparr>trace := trace s @ [(LogException e, None)]\<rparr>"

definition main :: "'w env \<Rightarrow> config \<Rightarrow> spark_functions \<Rightarrow> 'w st \<Rightarrow> ((exn + unit) \<times> 'w st) option" where
  "main env cfg lib s =
     (case pipeline env cfg lib s of
        None \<Rightarrow> None
      | Some (r, s1) \<Rightarrow>
          (let s2 = (case r of Inl e \<Rightarrow> log_exception e s1 | Inr _ \<Rightarrow> s1)
           in case upload_logs_to_s3 env cfg s2 of
                (Inl e, s3) \<Rightarrow> Some (Inl e, s3)
              | (Inr _, s3) \<Rightarrow> Some (perform SparkStop (spark_stop env) s3)))"

section \<open>A scripted world\<close>

text \<open>
  A world to run the job in: an object store that keeps what is put and raises on every
  call while it is unavailable, an API that answers the requests it gets with the scripted
  replies in turn (and refuses the connection when none is left), and a writer, a warehouse
  and a Spark session that do as asked. Every sequence of responses that the fetcher can
  meet is a script.
\<close>

record mock_world =
  objects :: "string \<times> string \<Rightarrow> string option"
  s3_available :: bool
  replies :: "(exn + response) list"

definition s3_call :: "mock_world \<Rightarrow> (exn + 'a) \<times> mock_world \<Rightarrow> (exn + 'a) \<times> mock_world" where
  "s3_call w r = (if s3_available w then r else (Inl (LibraryError ''EndpointConnectionError''), w))"

definition mock_env :: "mock_world env" where
  "mock_env =
     \<lparr>requests_get = (\<lambda>url rq w.
        case replies w of
          [] \<Rightarrow> (Inl (LibraryError ''ConnectionError''), w)
        | r # rs \<Rightarrow> (r, w\<lparr>replies := rs\<rparr>)),
      s3_get_object = (\<lambda>bucket key w.
        s3_call w
          (case objects w (bucket, key) of
             None \<Rightarrow> (Inl (LibraryError ''NoSuchKey''), w)
           | Some content \<Rightarrow> (Inr content, w))),
      s3_put_object = (\<lambda>bucket key content w.
        s3_call w (Inr (), w\<lparr>objects := (objects w)((bucket, key) \<mapsto> content)\<rparr>)),
      s3_upload_file = (\<lambda>file bucket key w. s3_call w (Inr (), w)),
      parquet_save = (\<lambda>path df w. s3_call w (Inr (), w)),
      redshift_copy = (\<lambda>command w. (Inr (), w)),
      spark_stop = (\<lambda>w. (Inr (), w)),
      log_file = ''etl_log_20230106_000000.log''\<rparr>"

text \<open>A successful response that carries a page of records.\<close>

definition ok_page :: "json_record list \<Rightarrow> exn + response" where
  "ok_page p = Inr \<lparr>status_code = 200, json = Inr p\<rparr>"

text \<open>A response on which the fetcher stops: a status other than 200, or an empty page.\<close>

definition stops :: "response \<Rightarrow> bool" where
  "stops r = (status_code r \<noteq> 200 \<or> json r = Inr [])"

text \<open>
  What the loop accumulates from a list of pages, starting from \<open>acc\<close>: the frame of each
  page, united by name with the frames before it, left to right.
\<close>

fun accumulate :: "dataframe option \<Rightarrow> json_record list list \<Rightarrow> exn + dataframe option" where
  "accumulate acc [] = Inr acc"
| "accumulate acc (p # ps) =
     (case createDataFrame p of
        Inl e \<Rightarrow> Inl e
      | Inr batch_df \<Rightarrow>
          (case acc of
             None \<Rightarrow> accumulate (Some batch_df) ps
           | Some df \<Rightarrow>
               (case unionByName df batch_df of
                  Inl e \<Rightarrow> Inl e
                | Inr u \<Rightarrow> accumulate (Some u) ps)))"

text \<open>The requests of \<open>n\<close> rounds of the loop that starts at \<open>offset\<close>, none of which raised.\<close>

definition page_requests :: "config \<Rightarrow> string \<Rightarrow> nat \<Rightarrow> nat \<Rightarrow> (call \<times> exn option) list" where
  "page_requests cfg d offset n =
     map (\<lambda>i. (HttpGet (BASE_URL cfg) (query_params d (LIMIT cfg) (offset + i * LIMIT cfg)), None))
       [0..<n]"

text \<open>A page from which \<^verbatim>\<open>createDataFrame\<close> infers a schema.\<close>

definition inferable :: "json_record list \<Rightarrow> bool" where
  "inferable p = (case createDataFrame p of Inl _ \<Rightarrow> False | Inr _ \<Rightarrow> True)"

text \<open>Sample pages and scripts.\<close>

definition page_1 :: "json_record list" where
  "page_1 =
     [[(''collision_id'', VStr ''4455765''), (''crash_date'', VStr ''2023-01-02T00:00:00.000'')]]"

definition page_2 :: "json_record list" where
  "page_2 =
     [[(''crash_date'', VStr ''2023-01-05T00:00:00.000''), (''collision_id'', VStr ''4455766'')]]"

definition page_3 :: "json_record list" where
  "page_3 =
     [[(''collision_id'', VStr ''4455767''), (''crash_date'', VStr ''2023-01-06T00:00:00.000''),
       (''borough'', VStr ''QUEENS'')]]"

definition scripted :: "(exn + response) list \<Rightarrow> mock_world" where
  "scripted rs = \<lparr>objects = (\<lambda>_. None), s3_available = True, replies = rs\<rparr>"

definition server_error :: response where
  "server_error = \<lparr>status_code = 500, json = Inl JSONDecodeError\<rparr>"

section \<open>Observations on a run\<close>

text \<open>The writes of the watermark document among the calls of a trace.\<close>

fun is_put :: "call \<times> exn option \<Rightarrow> bool" where
  "is_put (S3PutObject bucket key content, outcome) = True"
| "is_put _ = False"



text \<open>The calls of the \<^verbatim>\<open>finally\<close> block and of the handler: none of them writes the watermark.\<close>

definition upload_call :: "'w env \<Rightarrow> config \<Rightarrow> call" where
  "upload_call env cfg =
     S3UploadFile (log_file env) (LOGS_BUCKET cfg) (LOGS_KEY_PREFIX cfg @ log_file env)"

definition put_call :: "config \<Rightarrow> string \<Rightarrow> call" where
  "put_call cfg new_date =
     S3PutObject (CONFIG_BUCKET cfg) (CONFIG_FILE_KEY cfg)
       (json_dumps [(''last_collision_date'', new_date)])"

text \<open>
  A run from \<open>s\<close> to \<open>s'\<close> that does not write the watermark; and one that writes it once,
  with the date \<open>new_date\<close>, directly after the processed data were saved and the warehouse
  load returned normally.
\<close>

definition no_write :: "'w st \<Rightarrow> 'w st \<Rightarrow> bool" where
  "no_write s s' \<longleftrightarrow> filter is_put (trace s') = filter is_put (trace s)"







text \<open>A world whose object store is unavailable, and one whose store has no watermark document.\<close>

definition s3_down :: mock_world where
  "s3_down = \<lparr>objects = (\<lambda>_. None), s3_available = False, replies = []\<rparr>"

definition s3_empty :: mock_world where
  "s3_empty = \<lparr>objects = (\<lambda>_. None), s3_available = True, replies = []\<rparr>"

section \<open>Bucketing of the hour\<close>

lemma and_col_VBool [simp]: "and_col (VBool a) (VBool b) = VBool (a \<and> b)"
  by (cases a; cases b) simp_all

lemma or_col_VBool [simp]: "or_col (VBool a) (VBool b) = VBool (a \<or> b)"
  by (cases a; cases b) simp_all

lemma sint_less_numeral_32:
  "(h :: int32) <s 6 \<longleftrightarrow> sint h < 6"
  "(h :: int32) <s 12 \<longleftrightarrow> sint h < 12"
  "(h :: int32) <s 17 \<longleftrightarrow> sint h < 17"
  "(h :: int32) <s 21 \<longleftrightarrow> sint h < 21"
  by (simp_all add: word_sless_alt)

lemma sint_le_numeral_32:
  "(0 :: int32) \<le>s h \<longleftrightarrow> 0 \<le> sint h"
  "(6 :: int32) \<le>s h \<longleftrightarrow> 6 \<le> sint h"
  "(12 :: int32) \<le>s h \<longleftrightarrow> 12 \<le> sint h"
  "(17 :: int32) \<le>s h \<longleftrightarrow> 17 \<le> sint h"
  by (simp_all add: word_sle_eq)

text \<open>
  Claim C3. The \<^verbatim>\<open>time_of_day\<close> derivation is total and deterministic: an integer
  hour \<open>h\<close> gives "Late Night" for \<open>0 \<le> h < 6\<close>, "Morning" for \<open>6 \<le> h < 12\<close>,
  "Afternoon" for \<open>12 \<le> h < 17\<close>, "Evening" for \<open>17 \<le> h < 21\<close> and "Night" for every
  other integer (so for \<open>21 \<le> h < 24\<close>, for a negative hour and for an hour of 24 or more);
  a null hour gives "Night".
\<close>

theorem time_of_day_buckets:
  "time_of_day (VInt h) =
     VStr (if 0 \<le> sint h \<and> sint h < 6 then ''Late Night''
           else if 6 \<le> sint h \<and> sint h < 12 then ''Morning''
           else if 12 \<le> sint h \<and> sint h < 17 then ''Afternoon''
           else if 17 \<le> sint h \<and> sint h < 21 then ''Evening''
           else ''Night'')
   \<and> time_of_day VNull = VStr ''Night''"
  by (simp add: time_of_day_def sint_less_numeral_32 sint_le_numeral_32)

theorem time_of_day_buckets_witness:
  "time_of_day (VInt 3) = VStr ''Late Night'' \<and> time_of_day (VInt 11) = VStr ''Morning''
   \<and> time_of_day (VInt 12) = VStr ''Afternoon'' \<and> time_of_day (VInt 20) = VStr ''Evening''
   \<and> time_of_day (VInt 23) = VStr ''Night'' \<and> time_of_day (VInt 24) = VStr ''Night''
   \<and> time_of_day (VInt (- 1)) = VStr ''Night'' \<and> time_of_day VNull = VStr ''Night''"
  using time_of_day_buckets [of 3] time_of_day_buckets [of 11] time_of_day_buckets [of 12]
    time_of_day_buckets [of 20] time_of_day_buckets [of 23] time_of_day_buckets [of 24]
    time_of_day_buckets [of "- 1"]
  by simp

section \<open>Severity\<close>




lemma plus_col_null [simp]: "plus_col VNull v = VNull" "plus_col v VNull = VNull"
  by (cases v; simp)+

lemma totals_null:
  "a = VNull \<or> b = VNull \<or> c = VNull \<or> d = VNull \<Longrightarrow>
     total_injuries a b c d = VNull \<and> total_fatalities a b c d = VNull"
  by (auto simp: total_injuries_def total_fatalities_def)

text \<open>
  Claim C10. In a record whose \<^verbatim>\<open>total_injuries\<close> or \<^verbatim>\<open>total_fatalities\<close> is null,
  both branch conditions of \<^verbatim>\<open>severity_category\<close> are null, so the record takes the
  \<^verbatim>\<open>otherwise\<close> branch: the category is "Severe", and so never null.
\<close>

theorem severity_category_null:
  "ti = VNull \<or> tf = VNull \<Longrightarrow>
     eq_col (plus_col ti tf) (VInt 0) = VNull
     \<and> le_col (plus_col ti tf) (VInt 2) = VNull
     \<and> severity_category ti tf = VStr ''Severe''"
  by (auto simp: severity_category_def)

theorem severity_category_null_witness:
  "severity_category VNull (VInt 0) = VStr ''Severe''
   \<and> severity_category (VInt 0) VNull = VStr ''Severe''
   \<and> severity_category (total_injuries (VInt 0) VNull (VInt 0) (VInt 0)) (VInt 0) = VStr ''Severe''"
  using severity_category_null [of VNull "VInt 0"] severity_category_null [of "VInt 0" VNull]
    severity_category_null [of "total_injuries (VInt 0) VNull (VInt 0) (VInt 0)" "VInt 0"]
    totals_null [of "VInt 0" VNull "VInt 0" "VInt 0"]
  by simp

section \<open>The key column through \<^verbatim>\<open>transform_data\<close>\<close>






























section \<open>The fetcher on a scripted API\<close>

lemma mock_get:
  "replies w = r # rs \<Longrightarrow>
   perform (HttpGet u q) (requests_get mock_env u q) \<lparr>world = w, trace = tr\<rparr>
     = (r, \<lparr>world = w\<lparr>replies := rs\<rparr>, trace = tr @ [(HttpGet u q, raised r)]\<rparr>)"
  by (simp add: perform_def mock_env_def)

lemma download_loop_stop:
  assumes "perform (HttpGet (BASE_URL cfg) (query_params d (LIMIT cfg) offset))
             (requests_get env (BASE_URL cfg) (query_params d (LIMIT cfg) offset)) s = (Inr r, s1)"
    and "stops r"
  shows "download_loop env cfg d offset acc s = Some (Inr acc, s1)"
  using assms by (subst download_loop.simps) (auto simp: stops_def)

lemma download_loop_raise:
  assumes "perform (HttpGet (BASE_URL cfg) (query_params d (LIMIT cfg) offset))
             (requests_get env (BASE_URL cfg) (query_params d (LIMIT cfg) offset)) s = (Inl e, s1)"
  shows "download_loop env cfg d offset acc s = Some (Inl e, s1)"
  using assms by (subst download_loop.simps) simp

lemma download_loop_page:
  assumes "perform (HttpGet (BASE_URL cfg) (query_params d (LIMIT cfg) offset))
             (requests_get env (BASE_URL cfg) (query_params d (LIMIT cfg) offset)) s
           = (ok_page p, s1)"
    and "p \<noteq> []"
  shows "download_loop env cfg d offset acc s =
           (case accumulate acc [p] of
              Inl e \<Rightarrow> Some (Inl e, s1)
            | Inr acc' \<Rightarrow> download_loop env cfg d (offset + LIMIT cfg) acc' s1)"
  using assms
  by (subst download_loop.simps) (auto simp: ok_page_def split: sum.splits option.splits)

lemma accumulate_Cons:
  "accumulate acc (p # ps) =
     (case accumulate acc [p] of Inl e \<Rightarrow> Inl e | Inr acc' \<Rightarrow> accumulate acc' ps)"
  by (auto split: sum.splits option.splits)

lemma page_requests_Suc:
  "page_requests cfg d offset (Suc n) =
     (HttpGet (BASE_URL cfg) (query_params d (LIMIT cfg) offset), None)
       # page_requests cfg d (offset + LIMIT cfg) n"
  unfolding page_requests_def
  by (simp add: upt_conv_Cons map_Suc_upt [symmetric] add.assoc del: upt_Suc)

lemma download_loop_pages:
  assumes "replies w = map ok_page pages @ Inr stop # rest"
    and "list_all (\<lambda>p. p \<noteq> []) pages"
    and "stops stop"
    and "accumulate acc pages = Inr acc'"
  shows "download_loop mock_env cfg d offset acc \<lparr>world = w, trace = tr\<rparr>
         = Some (Inr acc',
             \<lparr>world = w\<lparr>replies := rest\<rparr>,
              trace = tr @ page_requests cfg d offset (Suc (length pages))\<rparr>)"
  using assms
proof (induction pages arbitrary: w tr offset acc)
  case Nil
  then have "replies w = Inr stop # rest" by simp
  from mock_get [OF this] Nil.prems(3,4) show ?case
    by (simp add: download_loop_stop [where ?s1.0 = "\<lparr>world = w\<lparr>replies := rest\<rparr>, trace = tr @ [(HttpGet (BASE_URL cfg) (query_params d (LIMIT cfg) offset), None)]\<rparr>"]
        raised_def page_requests_def)
next
  case (Cons p pages)
  from Cons.prems(1) have r: "replies w = ok_page p # (map ok_page pages @ Inr stop # rest)" by simp
  from Cons.prems(2) have ne: "p \<noteq> []" and nes: "list_all (\<lambda>p. p \<noteq> []) pages" by simp_all
  from Cons.prems(4) obtain a1 where a1: "accumulate acc [p] = Inr a1"
    and a2: "accumulate a1 pages = Inr acc'"
    by (subst (asm) accumulate_Cons) (auto split: sum.splits)
  let ?w1 = "w\<lparr>replies := map ok_page pages @ Inr stop # rest\<rparr>"
  let ?tr1 = "tr @ [(HttpGet (BASE_URL cfg) (query_params d (LIMIT cfg) offset), None)]"
  have g: "perform (HttpGet (BASE_URL cfg) (query_params d (LIMIT cfg) offset))
             (requests_get mock_env (BASE_URL cfg) (query_params d (LIMIT cfg) offset))
             \<lparr>world = w, trace = tr\<rparr> = (ok_page p, \<lparr>world = ?w1, trace = ?tr1\<rparr>)"
    using mock_get [OF r] by (simp add: raised_def ok_page_def)
  have "replies ?w1 = map ok_page pages @ Inr stop # rest" by simp
  from Cons.IH [OF this nes Cons.prems(3) a2, where tr = ?tr1 and offset = "offset + LIMIT cfg"]
  have "download_loop mock_env cfg d (offset + LIMIT cfg) a1 \<lparr>world = ?w1, trace = ?tr1\<rparr>
        = Some (Inr acc',
            \<lparr>world = w\<lparr>replies := rest\<rparr>,
             trace = tr @ page_requests cfg d offset (Suc (Suc (length pages)))\<rparr>)"
    by (simp add: page_requests_Suc [of cfg d offset "Suc (length pages)"])
  moreover have "download_loop mock_env cfg d offset acc \<lparr>world = w, trace = tr\<rparr>
        = download_loop mock_env cfg d (offset + LIMIT cfg) a1 \<lparr>world = ?w1, trace = ?tr1\<rparr>"
    by (simp only: download_loop_page [OF g ne] a1 sum.case)
  ultimately show ?case by simp
qed


lemma download_loop_pages_error:
  assumes "replies w = map ok_page pages @ ok_page p # rest"
    and "list_all (\<lambda>p. p \<noteq> []) pages"
    and "p \<noteq> []"
    and "accumulate acc pages = Inr a"
    and "accumulate a [p] = Inl e"
  shows "download_loop mock_env cfg d offset acc \<lparr>world = w, trace = tr\<rparr>
         = Some (Inl e,
             \<lparr>world = w\<lparr>replies := rest\<rparr>,
              trace = tr @ page_requests cfg d offset (Suc (length pages))\<rparr>)"
  using assms
proof (induction pages arbitrary: w tr offset acc)
  case Nil
  then have r: "replies w = ok_page p # rest" and a: "accumulate acc [p] = Inl e" by simp_all
  let ?s1 = "\<lparr>world = w\<lparr>replies := rest\<rparr>,
              trace = tr @ [(HttpGet (BASE_URL cfg) (query_params d (LIMIT cfg) offset), None)]\<rparr>"
  have g: "perform (HttpGet (BASE_URL cfg) (query_params d (LIMIT cfg) offset))
             (requests_get mock_env (BASE_URL cfg) (query_params d (LIMIT cfg) offset))
             \<lparr>world = w, trace = tr\<rparr> = (ok_page p, ?s1)"
    using mock_get [OF r] by (simp add: raised_def ok_page_def)
  have "download_loop mock_env cfg d offset acc \<lparr>world = w, trace = tr\<rparr> = Some (Inl e, ?s1)"
    by (simp only: download_loop_page [OF g Nil.prems(3)] a sum.case)
  then show ?case by (simp add: page_requests_def)
next
  case (Cons q pages)
  from Cons.prems(1)
  have r: "replies w = ok_page q # (map ok_page pages @ ok_page p # rest)" by simp
  from Cons.prems(2) have ne: "q \<noteq> []" and nes: "list_all (\<lambda>p. p \<noteq> []) pages" by simp_all
  from Cons.prems(4) obtain a1 where a1: "accumulate acc [q] = Inr a1"
    and a2: "accumulate a1 pages = Inr a"
    by (subst (asm) accumulate_Cons) (auto split: sum.splits)
  let ?w1 = "w\<lparr>replies := map ok_page pages @ ok_page p # rest\<rparr>"
  let ?tr1 = "tr @ [(HttpGet (BASE_URL cfg) (query_params d (LIMIT cfg) offset), None)]"
  have g: "perform (HttpGet (BASE_URL cfg) (query_params d (LIMIT cfg) offset))
             (requests_get mock_env (BASE_URL cfg) (query_params d (LIMIT cfg) offset))
             \<lparr>world = w, trace = tr\<rparr> = (ok_page q, \<lparr>world = ?w1, trace = ?tr1\<rparr>)"
    using mock_get [OF r] by (simp add: raised_def ok_page_def)
  have "replies ?w1 = map ok_page pages @ ok_page p # rest" by simp
  from Cons.IH [OF this nes Cons.prems(3) a2 Cons.prems(5), where tr = ?tr1 and offset = "offset + LIMIT cfg"]
  have "download_loop mock_env cfg d (offset + LIMIT cfg) a1 \<lparr>world = ?w1, trace = ?tr1\<rparr>
        = Some (Inl e,
            \<lparr>world = w\<lparr>replies := rest\<rparr>,
             trace = tr @ page_requests cfg d offset (Suc (Suc (length pages)))\<rparr>)"
    by (simp add: page_requests_Suc [of cfg d offset "Suc (length pages)"])
  moreover have "download_loop mock_env cfg d offset acc \<lparr>world = w, trace = tr\<rparr>
        = download_loop mock_env cfg d (offset + LIMIT cfg) a1 \<lparr>world = ?w1, trace = ?tr1\<rparr>"
    by (simp only: download_loop_page [OF g ne] a1 sum.case)
  ultimately show ?case by simp
qed

lemma createDataFrame_Inr:
  "createDataFrame p = Inr f \<Longrightarrow> columns f = infer_columns p \<and> rows f = map row_of p"
  by (auto simp: createDataFrame_def Let_def split: if_splits)

lemma distinct_foldl_infer:
  "distinct cols \<Longrightarrow>
     distinct (foldl (\<lambda>cols r. cols @ filter (\<lambda>k. k \<notin> set cols) (sort (remdups (map fst r)))) cols data)"
proof (induction data arbitrary: cols)
  case Nil
  then show ?case by simp
next
  case (Cons r data)
  from Cons.prems
  have "distinct (cols @ filter (\<lambda>k. k \<notin> set cols) (sort (remdups (map fst r))))"
    by auto
  from Cons.IH [OF this] show ?case by simp
qed

lemma distinct_infer_columns: "distinct (infer_columns data)"
  unfolding infer_columns_def by (rule distinct_foldl_infer) simp

lemma inferable_frame:
  "inferable p \<Longrightarrow> createDataFrame p = Inr \<lparr>columns = infer_columns p, rows = map row_of p\<rparr>"
  by (auto simp: inferable_def createDataFrame_def Let_def split: if_splits)

lemma accumulate_same_columns:
  assumes "list_all inferable pages"
    and "list_all (\<lambda>q. set (infer_columns q) = set (columns a)) pages"
    and "distinct (columns a)"
  shows "accumulate (Some a) pages
         = Inr (Some \<lparr>columns = columns a, rows = rows a @ concat (map (map row_of) pages)\<rparr>)"
  using assms
proof (induction pages arbitrary: a)
  case Nil
  then show ?case by simp
next
  case (Cons q pages)
  let ?u = "\<lparr>columns = columns a, rows = rows a @ map row_of q\<rparr>"
  from Cons.prems have q: "createDataFrame q = Inr \<lparr>columns = infer_columns q, rows = map row_of q\<rparr>"
    and same: "set (infer_columns q) = set (columns a)"
    by (simp_all add: inferable_frame)
  with Cons.prems(3) have u: "unionByName a \<lparr>columns = infer_columns q, rows = map row_of q\<rparr> = Inr ?u"
    by (simp add: unionByName_def distinct_infer_columns)
  from Cons.prems have "list_all inferable pages"
    "list_all (\<lambda>q. set (infer_columns q) = set (columns ?u)) pages" "distinct (columns ?u)"
    by simp_all
  from Cons.IH [OF this] q u show ?case by simp
qed

lemma accumulate_other_columns:
  assumes "list_all inferable pages"
    and "\<not> list_all (\<lambda>q. set (infer_columns q) = set (columns a)) pages"
    and "distinct (columns a)"
  shows "accumulate (Some a) pages = Inl (AnalysisException ''unionByName'')"
  using assms
proof (induction pages arbitrary: a)
  case Nil
  then show ?case by simp
next
  case (Cons q pages)
  let ?u = "\<lparr>columns = columns a, rows = rows a @ map row_of q\<rparr>"
  from Cons.prems have q: "createDataFrame q = Inr \<lparr>columns = infer_columns q, rows = map row_of q\<rparr>"
    by (simp add: inferable_frame)
  show ?case
  proof (cases "set (infer_columns q) = set (columns a)")
    case True
    with Cons.prems(3) have u: "unionByName a \<lparr>columns = infer_columns q, rows = map row_of q\<rparr> = Inr ?u"
      by (simp add: unionByName_def distinct_infer_columns)
    from Cons.prems True have "list_all inferable pages"
      "\<not> list_all (\<lambda>q. set (infer_columns q) = set (columns ?u)) pages" "distinct (columns ?u)"
      by simp_all
    from Cons.IH [OF this] q u show ?thesis by simp
  next
    case False
    then have "unionByName a \<lparr>columns = infer_columns q, rows = map row_of q\<rparr>
               = Inl (AnalysisException ''unionByName'')"
      by (auto simp: unionByName_def)
    with q show ?thesis by simp
  qed
qed

lemma infer_columns_samples:
  "infer_columns page_1 = [''collision_id'', ''crash_date'']"
  "infer_columns page_2 = [''collision_id'', ''crash_date'']"
  "infer_columns page_3 = [''borough'', ''collision_id'', ''crash_date'']"
  by code_simp+

lemma inferable_samples: "inferable page_1" "inferable page_2" "inferable page_3"
  by code_simp+

lemma nonempty_samples: "page_1 \<noteq> []" "page_2 \<noteq> []" "page_3 \<noteq> []"
  by (simp_all add: page_1_def page_2_def page_3_def)

lemma columns_differ: "set (infer_columns page_3) \<noteq> set (infer_columns page_1)"
proof -
  have "''borough'' \<in> set (infer_columns page_3)" "''borough'' \<notin> set (infer_columns page_1)"
    by (simp_all add: infer_columns_samples)
  then show ?thesis by blast
qed

lemma stops_samples: "stops server_error" "stops \<lparr>status_code = 200, json = Inr []\<rparr>"
  by (simp_all add: stops_def server_error_def)


text \<open>
  Claim C6. Whatever the API answers: when the responses are any number of successful,
  non-empty pages that the fetcher accumulates, followed by a response with a status other
  than 200 or by an empty page, \<^verbatim>\<open>download_new_data\<close> makes one request per page and
  one for the stopping response, makes no request after it, and returns what it has
  accumulated from the pages (nothing at all when there was no page) without raising.
  The responses scripted after the stopping one are left unread.
\<close>

theorem download_stops_and_returns_accumulated:
  assumes "replies w = map ok_page pages @ Inr stop # rest"
    and "list_all (\<lambda>p. p \<noteq> []) pages"
    and "stops stop"
    and "accumulate None pages = Inr acc"
  shows "download_new_data mock_env cfg d \<lparr>world = w, trace = tr\<rparr>
         = Some (Inr acc,
             \<lparr>world = w\<lparr>replies := rest\<rparr>,
              trace = tr @ page_requests cfg d 0 (Suc (length pages))\<rparr>)"
  unfolding download_new_data_def
  using download_loop_pages [OF assms] .

lemma accumulate_first:
  assumes "inferable p" and "list_all inferable pages"
  shows "accumulate None (p # pages) =
     (if list_all (\<lambda>q. set (infer_columns q) = set (infer_columns p)) pages
      then Inr (Some \<lparr>columns = infer_columns p, rows = concat (map (map row_of) (p # pages))\<rparr>)
      else Inl (AnalysisException ''unionByName''))"
proof -
  let ?a = "\<lparr>columns = infer_columns p, rows = map row_of p\<rparr>"
  have d: "distinct (columns ?a)" by (simp add: distinct_infer_columns)
  have "accumulate None (p # pages) = accumulate (Some ?a) pages"
    using assms(1) by (simp add: inferable_frame)
  also have "\<dots> = (if list_all (\<lambda>q. set (infer_columns q) = set (infer_columns p)) pages
      then Inr (Some \<lparr>columns = infer_columns p, rows = concat (map (map row_of) (p # pages))\<rparr>)
      else Inl (AnalysisException ''unionByName''))"
    using accumulate_same_columns [OF assms(2) _ d] accumulate_other_columns [OF assms(2) _ d]
    by simp
  finally show ?thesis .
qed



theorem download_stops_and_returns_accumulated_witness:
  "download_new_data mock_env config_py ''2023-01-01''
     \<lparr>world = scripted [ok_page page_1, Inr server_error, ok_page page_2], trace = []\<rparr>
   = Some (Inr (Some \<lparr>columns = [''collision_id'', ''crash_date''], rows = map row_of page_1\<rparr>),
       \<lparr>world = scripted [ok_page page_2],
        trace = page_requests config_py ''2023-01-01'' 0 2\<rparr>)
   \<and> download_new_data mock_env config_py ''2023-01-01''
     \<lparr>world = scripted [Inr server_error], trace = []\<rparr>
   = Some (Inr None, \<lparr>world = scripted [], trace = page_requests config_py ''2023-01-01'' 0 1\<rparr>)"
proof -
  have a: "accumulate None [page_1]
           = Inr (Some \<lparr>columns = [''collision_id'', ''crash_date''], rows = map row_of page_1\<rparr>)"
    using inferable_frame [OF inferable_samples(1)] by (simp add: infer_columns_samples)
  have r: "replies (scripted [ok_page page_1, Inr server_error, ok_page page_2])
           = map ok_page [page_1] @ Inr server_error # [ok_page page_2]"
    by (simp add: scripted_def)
  have n: "list_all (\<lambda>p. p \<noteq> []) [page_1]" by (simp add: nonempty_samples)
  have r0: "replies (scripted [Inr server_error]) = map ok_page [] @ Inr server_error # []"
    by (simp add: scripted_def)
  from download_stops_and_returns_accumulated [OF r n stops_samples(1) a, of config_py "''2023-01-01''" "[]"]
    download_stops_and_returns_accumulated [OF r0 _ stops_samples(1), of None config_py "''2023-01-01''" "[]"]
  show ?thesis by (simp add: scripted_def numeral_2_eq_2)
qed




text \<open>
  Claim C5, as the code has it. Let the page size limit be \<open>P \<ge> 1\<close> and let the API return
  two pages of \<open>P\<close> records and then an empty page, the two pages with inferable schemas
  over the same column set. Then \<^verbatim>\<open>download_new_data\<close> issues exactly three requests,
  with offsets \<open>0\<close>, \<open>P\<close> and \<open>2P\<close>, each with limit \<open>P\<close> and the filter
  \<^verbatim>\<open>crash_date > '<watermark>'\<close>, and returns the union of the two pages.
\<close>

theorem download_two_full_pages:
  assumes "replies w = ok_page p1 # ok_page p2 # ok_page [] # rest"
    and "length p1 = LIMIT cfg" and "length p2 = LIMIT cfg" and "0 < LIMIT cfg"
    and "inferable p1" and "inferable p2"
    and "set (infer_columns p2) = set (infer_columns p1)"
  shows "download_new_data mock_env cfg d \<lparr>world = w, trace = tr\<rparr>
         = Some (Inr (Some \<lparr>columns = infer_columns p1, rows = map row_of p1 @ map row_of p2\<rparr>),
             \<lparr>world = w\<lparr>replies := rest\<rparr>,
              trace = tr @
                [(HttpGet (BASE_URL cfg)
                    \<lparr>where_clause = ''crash_date > '' @ [CHR 0x27] @ d @ [CHR 0x27],
                     limit_param = LIMIT cfg, offset_param = 0\<rparr>, None),
                 (HttpGet (BASE_URL cfg)
                    \<lparr>where_clause = ''crash_date > '' @ [CHR 0x27] @ d @ [CHR 0x27],
                     limit_param = LIMIT cfg, offset_param = LIMIT cfg\<rparr>, None),
                 (HttpGet (BASE_URL cfg)
                    \<lparr>where_clause = ''crash_date > '' @ [CHR 0x27] @ d @ [CHR 0x27],
                     limit_param = LIMIT cfg, offset_param = 2 * LIMIT cfg\<rparr>, None)]\<rparr>)"
proof -
  from assms(2-4) have n: "list_all (\<lambda>q. q \<noteq> []) [p1, p2]" by auto
  have r: "replies w = map ok_page [p1, p2] @ Inr \<lparr>status_code = 200, json = Inr []\<rparr> # rest"
    using assms(1) by (simp add: ok_page_def)
  have s: "stops \<lparr>status_code = 200, json = Inr []\<rparr>" by (simp add: stops_def)
  have a: "accumulate None [p1, p2]
           = Inr (Some \<lparr>columns = infer_columns p1, rows = map row_of p1 @ map row_of p2\<rparr>)"
    using assms(5-7) by (subst accumulate_first) simp_all
  from download_loop_pages [OF r n s a, of cfg d 0 tr] show ?thesis
    by (simp add: download_new_data_def page_requests_def query_params_def upt_rec numeral_2_eq_2)
qed

theorem download_two_full_pages_witness:
  "download_new_data mock_env (config_py\<lparr>LIMIT := 1\<rparr>) ''2023-01-01''
     \<lparr>world = scripted [ok_page page_1, ok_page page_2, ok_page []], trace = []\<rparr>
   = Some (Inr (Some \<lparr>columns = [''collision_id'', ''crash_date''],
                     rows = map row_of page_1 @ map row_of page_2\<rparr>),
       \<lparr>world = scripted [],
        trace =
          [(HttpGet (BASE_URL config_py)
              \<lparr>where_clause = ''crash_date > '' @ [CHR 0x27] @ ''2023-01-01'' @ [CHR 0x27],
               limit_param = 1, offset_param = 0\<rparr>, None),
           (HttpGet (BASE_URL config_py)
              \<lparr>where_clause = ''crash_date > '' @ [CHR 0x27] @ ''2023-01-01'' @ [CHR 0x27],
               limit_param = 1, offset_param = 1\<rparr>, None),
           (HttpGet (BASE_URL config_py)
              \<lparr>where_clause = ''crash_date > '' @ [CHR 0x27] @ ''2023-01-01'' @ [CHR 0x27],
               limit_param = 1, offset_param = 2\<rparr>, None)]\<rparr>)"
proof -
  have r: "replies (scripted [ok_page page_1, ok_page page_2, ok_page []])
           = ok_page page_1 # ok_page page_2 # ok_page [] # []"
    by (simp add: scripted_def)
  have l: "length page_1 = LIMIT (config_py\<lparr>LIMIT := 1\<rparr>)"
    "length page_2 = LIMIT (config_py\<lparr>LIMIT := 1\<rparr>)" "0 < LIMIT (config_py\<lparr>LIMIT := 1\<rparr>)"
    by (simp_all add: page_1_def page_2_def)
  have c: "set (infer_columns page_2) = set (infer_columns page_1)"
    by (simp add: infer_columns_samples)
  from download_two_full_pages [OF r l inferable_samples(1,2) c, of "''2023-01-01''" "[]"]
  show ?thesis by (simp add: scripted_def infer_columns_samples)
qed

text \<open>
  The claim as the specification states it fails: with limit 1 and pages of sizes 1, 1 and
  0, the second page having one more field than the first, the fetcher raises after two
  requests.
\<close>

theorem download_two_full_pages_raises:
  "download_new_data mock_env (config_py\<lparr>LIMIT := 1\<rparr>) ''2023-01-01''
     \<lparr>world = scripted [ok_page page_2, ok_page page_3, ok_page []], trace = []\<rparr>
   = Some (Inl (AnalysisException ''unionByName''),
       \<lparr>world = scripted [ok_page []],
        trace = page_requests (config_py\<lparr>LIMIT := 1\<rparr>) ''2023-01-01'' 0 2\<rparr>)
   \<and> length page_2 = 1 \<and> length page_3 = 1"
proof -
  have r: "replies (scripted [ok_page page_2, ok_page page_3, ok_page []])
           = map ok_page [page_2] @ ok_page page_3 # [ok_page []]"
    by (simp add: scripted_def)
  have n: "list_all (\<lambda>q. q \<noteq> []) [page_2]" by (simp add: nonempty_samples)
  let ?a = "\<lparr>columns = infer_columns page_2, rows = map row_of page_2\<rparr>"
  have a: "accumulate None [page_2] = Inr (Some ?a)"
    using inferable_frame [OF inferable_samples(2)] by simp
  have "\<not> list_all (\<lambda>q. set (infer_columns q) = set (columns ?a)) [page_3]"
    using columns_differ by (simp add: infer_columns_samples)
  from accumulate_other_columns [OF _ this]
  have b: "accumulate (Some ?a) [page_3] = Inl (AnalysisException ''unionByName'')"
    by (simp add: inferable_samples distinct_infer_columns)
  from download_loop_pages_error [OF r n nonempty_samples(3) a b, of "config_py\<lparr>LIMIT := 1\<rparr>" "''2023-01-01''" 0 "[]"]
  show ?thesis
    by (simp add: download_new_data_def scripted_def numeral_2_eq_2 page_2_def page_3_def)
qed

section \<open>The watermark document\<close>

lemma hex_val_hex_digit_all: "list_all (\<lambda>k. hex_val (hex_digit k) = Some k) [0..<16]"
  by code_simp

lemma hex_val_hex_digit: "k < 16 \<Longrightarrow> hex_val (hex_digit k) = Some k"
  using hex_val_hex_digit_all by (simp add: list_all_iff)

lemma of_char_named:
  "(of_char c :: nat) = 8 \<Longrightarrow> c = CHR 0x08"
  "(of_char c :: nat) = 9 \<Longrightarrow> c = CHR 0x09"
  "(of_char c :: nat) = 10 \<Longrightarrow> c = CHR 0x0A"
  "(of_char c :: nat) = 12 \<Longrightarrow> c = CHR 0x0C"
  "(of_char c :: nat) = 13 \<Longrightarrow> c = CHR 0x0D"
  by (rule of_char_eqI [where ?'a = nat], simp)+

lemma lex_escape:
  "lex (InString acc) (json_escape c @ tail) = lex (InString (c # acc)) tail"
proof -
  let ?n = "of_char c :: nat"
  consider (quote) "c = CHR 0x22" | (backslash) "c = CHR 0x5C"
    | (named) "c \<noteq> CHR 0x22" "c \<noteq> CHR 0x5C" "?n \<in> {8, 9, 10, 12, 13}"
    | (hex) "c \<noteq> CHR 0x22" "c \<noteq> CHR 0x5C" "?n \<notin> {8, 9, 10, 12, 13}" "?n < 32 \<or> 126 < ?n"
    | (plain) "c \<noteq> CHR 0x22" "c \<noteq> CHR 0x5C" "32 \<le> ?n" "?n \<le> 126"
    by fastforce
  then show ?thesis
  proof cases
    case quote
    then show ?thesis by (simp add: json_escape_def unescape_def)
  next
    case backslash
    then show ?thesis by (simp add: json_escape_def unescape_def)
  next
    case named
    from named(3) have "c \<in> {CHR 0x08, CHR 0x09, CHR 0x0A, CHR 0x0C, CHR 0x0D}"
      by (auto dest: of_char_named)
    then show ?thesis
      by (auto simp: json_escape_def unescape_def)
  next
    case hex
    have "?n < 16 * 16"
      using nat_of_char_less_256 [of c] by simp
    then have d: "?n div 16 < 16" "?n mod 16 < 16"
      by (simp_all add: less_mult_imp_div_less)
    have e: "json_escape c =
        [CHR 0x5C, CHR ''u'', CHR ''0'', CHR ''0'', hex_digit (?n div 16), hex_digit (?n mod 16)]"
      using hex by (auto simp: json_escape_def Let_def)
    have z: "hex_val CHR ''0'' = Some 0" by (simp add: hex_val_def)
    show ?thesis
      using nat_of_char_less_256 [of c]
      by (simp add: e z hex_val_hex_digit d)
  next
    case plain
    then show ?thesis by (auto simp: json_escape_def Let_def)
  qed
qed

lemma lex_string_body:
  "lex (InString acc) (concat (map json_escape s) @ CHR 0x22 # rest)
     = emit (TString (rev acc @ s)) (lex Outside rest)"
proof (induction s arbitrary: acc)
  case Nil
  then show ?case by simp
next
  case (Cons c s)
  have "lex (InString acc) (concat (map json_escape (c # s)) @ CHR 0x22 # rest)
        = lex (InString acc) (json_escape c @ (concat (map json_escape s) @ CHR 0x22 # rest))"
    by simp
  also have "\<dots> = lex (InString (c # acc)) (concat (map json_escape s) @ CHR 0x22 # rest)"
    by (rule lex_escape)
  also have "\<dots> = emit (TString (rev (c # acc) @ s)) (lex Outside rest)"
    by (rule Cons.IH)
  finally show ?case by simp
qed

lemma lex_json_string:
  "lex Outside (json_string s @ rest) = emit (TString s) (lex Outside rest)"
  using lex_string_body [of "[]" s rest]
  by (simp add: json_string_def json_ws_def)

lemma json_loads_dumps_single: "json_loads (json_dumps [(k, v)]) = Inr [(k, v)]"
proof -
  have "lex Outside (json_dumps [(k, v)])
        = emit TLBrace (lex Outside (json_string k @ ('': '' @ json_string v @ ''}'')))"
    by (simp add: json_dumps_def json_ws_def)
  also have "\<dots> = emit TLBrace (emit (TString k) (lex Outside ('': '' @ json_string v @ ''}'')))"
    by (simp only: lex_json_string)
  also have "lex Outside ('': '' @ json_string v @ ''}'')
             = emit TColon (lex Outside (json_string v @ ''}''))"
    by (simp add: json_ws_def)
  also have "lex Outside (json_string v @ ''}'') = emit (TString v) (lex Outside ''}'')"
    by (simp only: lex_json_string)
  also have "lex Outside ''}'' = Some [TRBrace]"
    by (simp add: json_ws_def emit_def)
  finally have "lex Outside (json_dumps [(k, v)]) = Some [TLBrace, TString k, TColon, TString v, TRBrace]"
    by (simp add: emit_def)
  then show ?thesis by (simp add: json_loads_def)
qed

text \<open>
  Claim C9. Watermark round trip: on an object store that is available,
  \<^verbatim>\<open>update_last_collision_date(d)\<close> returns normally and leaves the document
  \<^verbatim>\<open>{"last_collision_date": d}\<close> under the configuration key, and
  \<^verbatim>\<open>read_last_collision_date()\<close> then returns \<open>d\<close>. It holds for every string \<open>d\<close>,
  so for every ISO date string.
\<close>

theorem watermark_round_trip:
  "s3_available w \<Longrightarrow>
     (case update_last_collision_date mock_env cfg d \<lparr>world = w, trace = tr\<rparr> of
        (r, s1) \<Rightarrow>
          r = Inr ()
          \<and> objects (world s1) (CONFIG_BUCKET cfg, CONFIG_FILE_KEY cfg)
              = Some (json_dumps [(''last_collision_date'', d)])
          \<and> fst (read_last_collision_date mock_env cfg s1) = Inr d)"
  by (simp add: update_last_collision_date_def read_last_collision_date_def perform_def
      mock_env_def s3_call_def json_loads_dumps_single dict_get_def Let_def)

theorem watermark_round_trip_witness:
  "fst (read_last_collision_date mock_env config_py
          (snd (update_last_collision_date mock_env config_py ''2023-01-05''
                  \<lparr>world = scripted [], trace = []\<rparr>)))
   = Inr ''2023-01-05''"
  using watermark_round_trip [of "scripted []" config_py "''2023-01-05''" "[]"]
  by (simp add: scripted_def split: prod.splits)

section \<open>The watermark through \<^verbatim>\<open>main\<close>\<close>

lemma perform_trace:
  "perform c f s = (r, s') \<Longrightarrow> trace s' = trace s @ [(c, raised r)]"
  by (auto simp: perform_def split: prod.splits)





lemma transform_data_raises:
  "transform_data env cfg lib df s = (Inl e, s') \<Longrightarrow>
     filter is_put (trace s') = filter is_put (trace s)"
  by (auto simp: transform_data_def dest!: perform_trace split: sum.splits prod.splits)

lemma transform_data_returns:
  "transform_data env cfg lib df s = (Inr path, s') \<Longrightarrow>
     path = processed_data_path cfg \<and> trace s' = trace s @ [(ParquetSave path, None)]"
  by (auto simp: transform_data_def raised_def dest!: perform_trace split: sum.splits prod.splits)

lemma load_trace:
  "load_data_into_redshift env cfg path s = (r, s') \<Longrightarrow>
     trace s' = trace s @ [(RedshiftCopy (copy_command cfg path), raised r)]"
  unfolding load_data_into_redshift_def by (rule perform_trace)

lemma update_trace:
  "update_last_collision_date env cfg new_date s = (r, s') \<Longrightarrow>
     trace s' = trace s @ [(put_call cfg new_date, raised r)]"
  unfolding update_last_collision_date_def put_call_def Let_def by (rule perform_trace)

lemma is_put_simps [simp]:
  "\<not> is_put (ParquetSave p, x)" "\<not> is_put (RedshiftCopy c, x)" "\<not> is_put (SparkStop, x)"
  "\<not> is_put (LogException e, x)" "\<not> is_put (upload_call env cfg, x)"
  "\<not> is_put (HttpGet u q, x)" "\<not> is_put (S3GetObject b k, x)"
  by (simp_all add: upload_call_def)

text \<open>What the \<^verbatim>\<open>try\<close> block does to the watermark once the batch and the new date are there.\<close>

lemma pipeline_tail:
  assumes "transform_data env cfg lib df s2 = (rt, s3)"
    and "(case rt of Inl e \<Rightarrow> Some (Inl e, s3)
          | Inr path \<Rightarrow>
              (case load_data_into_redshift env cfg path s3 of
                 (Inl e, s4) \<Rightarrow> Some (Inl e, s4)
               | (Inr _, s4) \<Rightarrow> Some (update_last_collision_date env cfg new_date s4)))
         = Some (r, s')"
  shows "filter is_put (trace s') = filter is_put (trace s2)
       \<or> trace s' = trace s2 @ [(ParquetSave (processed_data_path cfg), None),
                                 (RedshiftCopy (copy_command cfg (processed_data_path cfg)), None),
                                 (put_call cfg new_date, raised r)]"
proof (cases rt)
  case (Inl e)
  with assms transform_data_raises [of env cfg lib df s2 e s3] show ?thesis by simp
next
  case (Inr path)
  with assms(1) have t: "path = processed_data_path cfg"
    "trace s3 = trace s2 @ [(ParquetSave path, None)]"
    using transform_data_returns [of env cfg lib df s2 path s3] by simp_all
  obtain rl s4 where l: "load_data_into_redshift env cfg path s3 = (rl, s4)"
    by (cases "load_data_into_redshift env cfg path s3")
  note lt = load_trace [OF l]
  show ?thesis
  proof (cases rl)
    case (Inl e)
    with assms(2) Inr l have "s' = s4" by simp
    with lt t show ?thesis by simp
  next
    case (Inr u)
    with assms(2) \<open>rt = Inr path\<close> l
    have "update_last_collision_date env cfg new_date s4 = (r, s')" by simp
    from update_trace [OF this] lt t Inr show ?thesis by (simp add: raised_def)
  qed
qed






lemma no_write_after:
  "filter is_put (trace sp) = filter is_put (trace s) \<Longrightarrow> trace s' = trace sp @ post \<Longrightarrow>
     filter is_put post = [] \<Longrightarrow> no_write s s'"
  by (simp add: no_write_def)


section \<open>Runs of \<^verbatim>\<open>main\<close>\<close>










lemma mock_upload:
  "upload_logs_to_s3 mock_env cfg \<lparr>world = w, trace = tr\<rparr>
   = (if s3_available w
      then (Inr (), \<lparr>world = w, trace = tr @ [(upload_call mock_env cfg, None)]\<rparr>)
      else (Inl (LibraryError ''EndpointConnectionError''),
            \<lparr>world = w,
             trace = tr @ [(upload_call mock_env cfg, Some (LibraryError ''EndpointConnectionError''))]\<rparr>))"
  by (simp add: upload_logs_to_s3_def perform_def mock_env_def s3_call_def raised_def upload_call_def)

lemma mock_stop:
  "perform SparkStop (spark_stop mock_env) \<lparr>world = w, trace = tr\<rparr>
   = (Inr (), \<lparr>world = w, trace = tr @ [(SparkStop, None)]\<rparr>)"
  by (simp add: perform_def mock_env_def raised_def)




lemma pipeline_ends:
  assumes "pipeline env cfg lib s = Some (r, s1)"
  shows "\<exists>res s' up st.
           main env cfg lib s = Some (res, s')
           \<and> trace s' = trace s1
               @ (case r of Inl e \<Rightarrow> [(LogException e, None)] | Inr _ \<Rightarrow> [])
               @ (upload_call env cfg, up)
               # (case up of None \<Rightarrow> [(SparkStop, st)] | Some e \<Rightarrow> [])
           \<and> raised res = (case up of None \<Rightarrow> st | Some e \<Rightarrow> Some e)"
proof -
  define s2 where "s2 = (case r of Inl e \<Rightarrow> log_exception e s1 | Inr _ \<Rightarrow> s1)"
  have t2: "trace s2 = trace s1 @ (case r of Inl e \<Rightarrow> [(LogException e, None)] | Inr _ \<Rightarrow> [])"
    by (cases r) (simp_all add: s2_def log_exception_def)
  obtain u s3 where u: "upload_logs_to_s3 env cfg s2 = (u, s3)"
    by (cases "upload_logs_to_s3 env cfg s2")
  then have t3: "trace s3 = trace s2 @ [(upload_call env cfg, raised u)]"
    unfolding upload_logs_to_s3_def upload_call_def by (rule perform_trace)
  show ?thesis
  proof (cases u)
    case (Inl e)
    with assms u have "main env cfg lib s = Some (Inl e, s3)"
      by (simp add: main_def s2_def)
    with t2 t3 Inl show ?thesis by (simp add: raised_def)
  next
    case (Inr x)
    obtain res s4 where st: "perform SparkStop (spark_stop env) s3 = (res, s4)"
      by (cases "perform SparkStop (spark_stop env) s3")
    with assms u Inr have "main env cfg lib s = Some (res, s4)"
      by (simp add: main_def s2_def)
    with perform_trace [OF st] t2 t3 Inr show ?thesis by (simp add: raised_def)
  qed
qed

text \<open>
  Claim C8, as the code has it. In every run of \<^verbatim>\<open>main\<close> whose \<^verbatim>\<open>try\<close> block ends,
  normally, on the no-data path or with an exception, \<^verbatim>\<open>main\<close> ends too: an exception of
  the block is logged by the handler and goes no further, and \<^verbatim>\<open>upload_logs_to_s3\<close> is
  called next in every case. \<^verbatim>\<open>main\<close> returns normally exactly when the upload and
  \<^verbatim>\<open>spark.stop()\<close> raise nothing: an exception of the upload leaves \<^verbatim>\<open>main\<close> (and
  \<^verbatim>\<open>spark.stop()\<close> is not called), and so does one of \<^verbatim>\<open>spark.stop()\<close>.
\<close>

theorem main_logs_and_uploads:
  "pipeline env cfg lib s = Some (r, s1) \<Longrightarrow>
     \<exists>res s' up st.
       main env cfg lib s = Some (res, s')
       \<and> trace s' = trace s1
           @ (case r of Inl e \<Rightarrow> [(LogException e, None)] | Inr _ \<Rightarrow> [])
           @ (upload_call env cfg, up)
           # (case up of None \<Rightarrow> [(SparkStop, st)] | Some e \<Rightarrow> [])
       \<and> raised res = (case up of None \<Rightarrow> st | Some e \<Rightarrow> Some e)"
  by (rule pipeline_ends)

lemma no_document_pipeline:
  "pipeline mock_env config_py null_lib \<lparr>world = s3_empty, trace = []\<rparr>
   = Some (Inl (LibraryError ''NoSuchKey''),
       \<lparr>world = s3_empty,
        trace = [(S3GetObject (CONFIG_BUCKET config_py) (CONFIG_FILE_KEY config_py),
                  Some (LibraryError ''NoSuchKey''))]\<rparr>)"
  by (simp add: pipeline_def read_last_collision_date_def perform_def mock_env_def s3_call_def
      s3_empty_def raised_def)

theorem main_logs_and_uploads_witness:
  "main mock_env config_py null_lib \<lparr>world = s3_empty, trace = []\<rparr>
   = Some (Inr (),
       \<lparr>world = s3_empty,
        trace = [(S3GetObject (CONFIG_BUCKET config_py) (CONFIG_FILE_KEY config_py),
                  Some (LibraryError ''NoSuchKey'')),
                 (LogException (LibraryError ''NoSuchKey''), None),
                 (upload_call mock_env config_py, None),
                 (SparkStop, None)]\<rparr>)"
proof -
  have m: "main mock_env config_py null_lib \<lparr>world = s3_empty, trace = []\<rparr>
   = Some (Inr (),
       \<lparr>world = s3_empty,
        trace = [(S3GetObject (CONFIG_BUCKET config_py) (CONFIG_FILE_KEY config_py),
                  Some (LibraryError ''NoSuchKey'')),
                 (LogException (LibraryError ''NoSuchKey''), None),
                 (upload_call mock_env config_py, None),
                 (SparkStop, None)]\<rparr>)"
    unfolding main_def
    by (simp add: no_document_pipeline log_exception_def mock_upload mock_stop)
      (simp add: s3_empty_def)
  from main_logs_and_uploads [OF no_document_pipeline] m show ?thesis by simp
qed

text \<open>
  The claim as the specification states it fails: while the object store is unavailable,
  reading the watermark raises, the handler logs it, the log upload raises as well, and
  that exception leaves \<^verbatim>\<open>main\<close>.
\<close>

theorem main_raises_when_upload_raises:
  "main mock_env config_py null_lib \<lparr>world = s3_down, trace = []\<rparr>
   = Some (Inl (LibraryError ''EndpointConnectionError''),
       \<lparr>world = s3_down,
        trace = [(S3GetObject (CONFIG_BUCKET config_py) (CONFIG_FILE_KEY config_py),
                  Some (LibraryError ''EndpointConnectionError'')),
                 (LogException (LibraryError ''EndpointConnectionError''), None),
                 (upload_call mock_env config_py, Some (LibraryError ''EndpointConnectionError''))]\<rparr>)"
proof -
  have "pipeline mock_env config_py null_lib \<lparr>world = s3_down, trace = []\<rparr>
   = Some (Inl (LibraryError ''EndpointConnectionError''),
       \<lparr>world = s3_down,
        trace = [(S3GetObject (CONFIG_BUCKET config_py) (CONFIG_FILE_KEY config_py),
                  Some (LibraryError ''EndpointConnectionError''))]\<rparr>)"
    by (simp add: pipeline_def read_last_collision_date_def perform_def mock_env_def s3_call_def
        s3_down_def raised_def)
  then show ?thesis
    unfolding main_def
    by (simp add: log_exception_def mock_upload) (simp add: s3_down_def)
qed

end
